theory Spec2Isabelle
  imports Complex_Main
begin

section \<open>slack-autoarchive: the channel reaper\<close>

text \<open>
  A shallow embedding of \<^verbatim>\<open>src/slack_autoarchive.py\<close> (class \<^verbatim>\<open>ChannelReaper\<close>).
  The program is Python 3 (it uses f-strings, lines 62 and 218). Every method becomes a
  function of the same name that takes the settings, the run-time environment and the
  trace of effects so far, and returns its result together with the extended trace.
  An exception is a value \<open>Inl e\<close>; a call that never returns is \<open>None\<close>.
\<close>

subsection \<open>Data\<close>

text \<open>
  Points in time. A POSIX timestamp is a number of seconds (the value that \<^verbatim>\<open>float(...)\<close>
  gives); a naive \<^verbatim>\<open>datetime\<close> is the number of seconds between the naive instant
  1970-01-01 00:00:00 and it, which is how Python orders naive datetimes. The rounding of
  \<^verbatim>\<open>datetime\<close> to whole microseconds is not modelled.
\<close>

type_synonym timestamp = rat
type_synonym datetime = rat

datatype py_error =
    KeyError string
  | TypeError
  | ValueError
  | FileNotFoundError
  | RequestException
  | JSONDecodeError
  | Exception py_error
  | SystemExit nat

text \<open>
  The settings dictionary. \<^verbatim>\<open>get_channel_reaper_settings\<close> lives in \<^verbatim>\<open>config.py\<close>, which
  is not part of the source at hand, so the dictionary is a parameter: one field for each key
  that the class reads with \<^verbatim>\<open>self.settings.get\<close>. The two keys whose truth value the
  class tests are optional (\<open>None\<close>: the key is absent or \<^verbatim>\<open>None\<close>).
\<close>

record settings =
  slack_token :: string
  bot_slack_token :: string
  dry_run :: bool
  min_members :: int
  days_inactive :: int
  admin_channel :: "string option"
  skip_subtypes :: "string list"
  skip_channel_str :: string
  whitelist_keywords :: "string option"
  too_old_datetime :: datetime

text \<open>The flat channel dictionary that \<^verbatim>\<open>get_all_channels\<close> builds (lines 109-116).\<close>

record channel =
  chan_id :: string
  name :: string
  created :: timestamp
  num_members :: int
  topic :: string
  purpose :: string

text \<open>A channel object as \<^verbatim>\<open>conversations.list\<close> sends it, with its nested texts.\<close>

record text_value =
  "value" :: string

record raw_channel =
  raw_id :: string
  raw_name :: string
  raw_created :: timestamp
  raw_num_members :: int
  raw_topic :: text_value
  raw_purpose :: text_value

text \<open>
  A history entry: \<open>subtype\<close> is \<open>None\<close> when the key is absent; \<open>ts\<close> is the value
  of \<^verbatim>\<open>float(message["ts"])\<close>.
\<close>

record message =
  subtype :: "string option"
  ts :: timestamp

text \<open>
  A decoded JSON object of the Slack API is a dictionary from keys to values (an association
  list without repeated keys); the values carry the types of the Slack schema.
\<close>

datatype jvalue =
    JNull
  | JBool bool
  | JNum rat
  | JStr string
  | JChannels "raw_channel list"
  | JMessages "message list"

type_synonym body = "(string \<times> jvalue) list"

datatype verb = GET | POST

datatype pvalue = PInt int | PStr string

record request =
  uri :: string
  verb :: verb
  payload :: "(string \<times> pvalue) list"
  headers :: "(string \<times> string) list"

text \<open>
  What \<^verbatim>\<open>requests.get\<close> / \<^verbatim>\<open>requests.post\<close> come back with: a response (status code,
  headers, and the decoded body, \<open>None\<close> when \<^verbatim>\<open>response.json()\<close> raises), or an
  exception of the transport.
\<close>

record response =
  status_code :: nat
  resp_headers :: "(string \<times> string) list"
  json :: "body option"

datatype outcome = Answered response | Failed

datatype level = Info | Error

text \<open>Everything the program does to the outside world, in the order in which it does it.\<close>

datatype event =
    Log level string
  | Sleep rat
  | Http request
  | Stdout string
  | WriteFile string string

type_synonym trace = "event list"

text \<open>
  The run-time environment: the two local files, the platform behind the HTTP library, and
  the builtins whose results the program only passes on.
  \<^item> \<open>whitelist_txt\<close>: \<open>None\<close> when \<^verbatim>\<open>whitelist.txt\<close> is not a file, else what
    \<^verbatim>\<open>readlines()\<close> returns;
  \<^item> \<open>templates_json\<close>: what opening and decoding \<^verbatim>\<open>templates.json\<close> gives, the
    dictionary or the exception;
  \<^item> \<open>server\<close>: the outcome of the request that was issued last, as a function of
    everything done so far (the trace ends with that request);
  \<^item> \<open>utc_offset\<close>: the offset of local time that \<^verbatim>\<open>datetime.fromtimestamp\<close> applies;
  \<^item> \<open>float_of\<close>: \<^verbatim>\<open>float\<close> on a header string, \<open>None\<close> for \<^verbatim>\<open>ValueError\<close>;
  \<^item> \<open>format_alert\<close>: \<^verbatim>\<open>alert.format(days_inactive=n)\<close>;
  \<^item> \<open>now_stamp\<close>: \<^verbatim>\<open>datetime.now().strftime("%m%d%Y%H%M%S")\<close>.
\<close>

record env =
  whitelist_txt :: "string list option"
  templates_json :: "py_error + (string \<times> string) list"
  server :: "trace \<Rightarrow> outcome"
  utc_offset :: "timestamp \<Rightarrow> rat"
  float_of :: "string \<Rightarrow> rat option"
  format_alert :: "string \<Rightarrow> int \<Rightarrow> py_error + string"
  now_stamp :: string

subsection \<open>Python's builtins\<close>

text \<open>
  \<^verbatim>\<open>str.isspace\<close> on one character, for the code points below 256.
\<close>

definition py_isspace :: "char \<Rightarrow> bool" where
  "py_isspace c =
     (let n = (of_char c :: nat)
      in (9 \<le> n \<and> n \<le> 13) \<or> (28 \<le> n \<and> n \<le> 32) \<or> n = 133 \<or> n = 160)"

text \<open>\<^verbatim>\<open>s.strip()\<close> and \<^verbatim>\<open>s.strip(chars)\<close>: both ends lose every leading character of the set.\<close>

definition strip_where :: "(char \<Rightarrow> bool) \<Rightarrow> string \<Rightarrow> string" where
  "strip_where p s = rev (dropWhile p (rev (dropWhile p s)))"

definition strip :: "string \<Rightarrow> string" where
  "strip s = strip_where py_isspace s"

definition strip_chars :: "string \<Rightarrow> string \<Rightarrow> string" where
  "strip_chars cs s = strip_where (\<lambda>c. c \<in> set cs) s"

text \<open>\<^verbatim>\<open>s.split(sep)\<close> for a separator of one character.\<close>

fun split_on :: "char \<Rightarrow> string \<Rightarrow> string list" where
  "split_on sep [] = [[]]"
| "split_on sep (c # cs) =
     (if c = sep then [] # split_on sep cs
      else (case split_on sep cs of
              [] \<Rightarrow> [[c]]
            | w # ws \<Rightarrow> (c # w) # ws))"

text \<open>\<^verbatim>\<open>needle in haystack\<close> on strings: the needle occurs as a contiguous part.\<close>

fun starts_with :: "string \<Rightarrow> string \<Rightarrow> bool" where
  "starts_with s [] = True"
| "starts_with [] (p # ps) = False"
| "starts_with (c # cs) (p # ps) = (c = p \<and> starts_with cs ps)"

fun str_in :: "string \<Rightarrow> string \<Rightarrow> bool" where
  "str_in needle [] = (needle = [])"
| "str_in needle (c # cs) = (starts_with (c # cs) needle \<or> str_in needle cs)"

text \<open>\<^verbatim>\<open>"%d" % n\<close> for a length.\<close>

function show_nat :: "nat \<Rightarrow> string" where
  "show_nat n =
     (if n < 10 then [char_of (48 + n)]
      else show_nat (n div 10) @ [char_of (48 + n mod 10)])"
  by pat_completeness auto
termination
  by (relation "measure id") auto

text \<open>\<^verbatim>\<open>sep.join(xs)\<close>.\<close>

fun join :: "string \<Rightarrow> string list \<Rightarrow> string" where
  "join sep [] = []"
| "join sep [x] = x"
| "join sep (x # y # ys) = x @ sep @ join sep (y # ys)"

text \<open>
  The truth value of a decoded JSON value, as \<^verbatim>\<open>if v\<close> and \<^verbatim>\<open>and\<close> take it.
\<close>

fun truthy :: "jvalue \<Rightarrow> bool" where
  "truthy JNull = False"
| "truthy (JBool b) = b"
| "truthy (JNum n) = (n \<noteq> 0)"
| "truthy (JStr s) = (s \<noteq> [])"
| "truthy (JChannels cs) = (cs \<noteq> [])"
| "truthy (JMessages ms) = (ms \<noteq> [])"

text \<open>
  \<^verbatim>\<open>datetime.utcfromtimestamp\<close> and \<^verbatim>\<open>datetime.fromtimestamp\<close>, and the truth value of a
  \<^verbatim>\<open>datetime\<close> object, which is true for every one of them.
\<close>

definition utcfromtimestamp :: "timestamp \<Rightarrow> datetime" where
  "utcfromtimestamp t = t"

definition fromtimestamp :: "env \<Rightarrow> timestamp \<Rightarrow> datetime" where
  "fromtimestamp e t = t + utc_offset e t"

definition datetime_truthy :: "datetime \<Rightarrow> bool" where
  "datetime_truthy d = True"

text \<open>
  In Python 3 \<^verbatim>\<open>map(f, xs)\<close> is an iterator, not a list. The two kinds of sequence that
  \<^verbatim>\<open>get_whitelist_keywords\<close> handles, the \<^verbatim>\<open>+\<close> between them (defined for two lists
  only) and \<^verbatim>\<open>list(...)\<close>:
\<close>

datatype str_seq = PyList "string list" | PyMap "string list"

fun py_map :: "(string \<Rightarrow> string) \<Rightarrow> str_seq \<Rightarrow> str_seq" where
  "py_map f (PyList xs) = PyMap (map f xs)"
| "py_map f (PyMap xs) = PyMap (map f xs)"

fun py_add :: "str_seq \<Rightarrow> str_seq \<Rightarrow> py_error + str_seq" where
  "py_add (PyList xs) (PyList ys) = Inr (PyList (xs @ ys))"
| "py_add (PyMap xs) ys = Inl TypeError"
| "py_add xs (PyMap ys) = Inl TypeError"

fun py_list :: "str_seq \<Rightarrow> string list" where
  "py_list (PyList xs) = xs"
| "py_list (PyMap xs) = xs"

subsection \<open>The whitelist\<close>

text \<open>\<^verbatim>\<open>get_whitelist_keywords\<close>, lines 27-42.\<close>

definition get_whitelist_keywords :: "settings \<Rightarrow> env \<Rightarrow> py_error + string list" where
  "get_whitelist_keywords cfg e =
     (let keywords = (case whitelist_txt e of
                        None \<Rightarrow> PyList []
                      | Some ls \<Rightarrow> PyList ls);
          keywords = py_map strip keywords
      in case whitelist_keywords cfg of
           None \<Rightarrow> Inr (py_list keywords)
         | Some wk \<Rightarrow>
             if wk \<noteq> [] then
               (case py_add keywords (PyList (split_on CHR '','' wk)) of
                  Inl err \<Rightarrow> Inl err
                | Inr keywords \<Rightarrow> Inr (py_list keywords))
             else Inr (py_list keywords))"

text \<open>\<^verbatim>\<open>is_channel_whitelisted\<close>, lines 166-181.\<close>

fun whitelisted_by_name :: "channel \<Rightarrow> string list \<Rightarrow> bool" where
  "whitelisted_by_name ch [] = False"
| "whitelisted_by_name ch (white_listed_channel # rest) =
     (let wl_channel_name = strip_chars ''#'' white_listed_channel
      in if str_in wl_channel_name (name ch) then True
         else whitelisted_by_name ch rest)"

definition is_channel_whitelisted :: "settings \<Rightarrow> channel \<Rightarrow> string list \<Rightarrow> bool" where
  "is_channel_whitelisted cfg ch white_listed_channels =
     (let channel_purpose = purpose ch;
          channel_topic = topic ch
      in if str_in (skip_channel_str cfg) channel_purpose
            \<or> str_in (skip_channel_str cfg) channel_topic
         then True
         else whitelisted_by_name ch white_listed_channels)"

subsection \<open>The last activity of a channel\<close>

text \<open>
  The loop of lines 130-136: the first message whose subtype is not skipped gives the time;
  when there is none, the variable keeps its starting value.
\<close>

fun first_kept_message :: "settings \<Rightarrow> env \<Rightarrow> message list \<Rightarrow> datetime \<Rightarrow> datetime" where
  "first_kept_message cfg e [] last_message_datetime = last_message_datetime"
| "first_kept_message cfg e (m # ms) last_message_datetime =
     (case subtype m of
        Some st \<Rightarrow>
          if st \<in> set (skip_subtypes cfg)
          then first_kept_message cfg e ms last_message_datetime
          else fromtimestamp e (ts m)
      | None \<Rightarrow> fromtimestamp e (ts m))"

text \<open>
  \<^verbatim>\<open>for message in channel_history["messages"]\<close> on each type that the value can have:
  a list of messages is walked; an empty sequence gives no iteration; an element without
  \<^verbatim>\<open>"ts"\<close> raises.
\<close>

fun history_messages :: "jvalue \<Rightarrow> py_error + message list" where
  "history_messages (JMessages ms) = Inr ms"
| "history_messages (JChannels []) = Inr []"
| "history_messages (JChannels (c # cs)) = Inl (KeyError ''ts'')"
| "history_messages (JStr []) = Inr []"
| "history_messages (JStr (c # cs)) = Inl TypeError"
| "history_messages JNull = Inl TypeError"
| "history_messages (JBool b) = Inl TypeError"
| "history_messages (JNum n) = Inl TypeError"

text \<open>
  \<^verbatim>\<open>get_last_message_timestamp\<close>, lines 120-143. \<open>channel_history\<close> is what
  \<^verbatim>\<open>slack_api_http\<close> returned: \<open>None\<close> or a dictionary. A dictionary is false exactly
  when it is empty. (The parameter is named \<^verbatim>\<open>too_old_datetime\<close> in the source, as the
  settings key is.)
\<close>

definition get_last_message_timestamp ::
  "settings \<Rightarrow> env \<Rightarrow> body option \<Rightarrow> datetime \<Rightarrow> py_error + datetime" where
  "get_last_message_timestamp cfg e channel_history too_old_datetime' =
     (let last_message_datetime = too_old_datetime'
      in case channel_history of
           None \<Rightarrow> Inr (utcfromtimestamp 0)
         | Some h \<Rightarrow>
             if h = [] then Inr (utcfromtimestamp 0)
             else (case map_of h ''messages'' of
                     None \<Rightarrow> Inr last_message_datetime
                   | Some v \<Rightarrow>
                       (case history_messages v of
                          Inl err \<Rightarrow> Inl err
                        | Inr ms \<Rightarrow>
                            (let last_message_datetime =
                                   first_kept_message cfg e ms last_message_datetime
                             in if \<not> datetime_truthy last_message_datetime
                                then Inr (utcfromtimestamp 0)
                                else Inr last_message_datetime))))"

text \<open>The two conditions of \<^verbatim>\<open>is_channel_disused\<close>, lines 159-161.\<close>

definition last_message_is_too_old :: "datetime \<Rightarrow> datetime \<Rightarrow> bool" where
  "last_message_is_too_old last_message_datetime too_old = (last_message_datetime \<le> too_old)"

definition has_min_users :: "settings \<Rightarrow> channel \<Rightarrow> bool" where
  "has_min_users cfg ch = (min_members cfg = 0 \<or> min_members cfg > num_members ch)"


subsection \<open>The API client\<close>

text \<open>
  A computation that may raise, may run forever, and extends the trace: \<open>None\<close> when it
  never returns, else the result or the exception together with the trace at that moment.
\<close>

type_synonym 'a io = "((py_error + 'a) \<times> trace) option"

definition and_then :: "'a io \<Rightarrow> ('a \<Rightarrow> trace \<Rightarrow> 'b io) \<Rightarrow> 'b io" where
  "and_then m f =
     (case m of
        None \<Rightarrow> None
      | Some (Inl err, w) \<Rightarrow> Some (Inl err, w)
      | Some (Inr x, w) \<Rightarrow> f x w)"

text \<open>
  The headers of a response are a case-insensitive dictionary
  (\<^verbatim>\<open>requests.structures.CaseInsensitiveDict\<close>).
\<close>

definition lower_char :: "char \<Rightarrow> char" where
  "lower_char c =
     (let n = (of_char c :: nat)
      in if 65 \<le> n \<and> n \<le> 90 then char_of (n + 32) else c)"

definition header :: "(string \<times> string) list \<Rightarrow> string \<Rightarrow> string option" where
  "header hs k = map_of (map (\<lambda>(a, b). (map lower_char a, b)) hs) (map lower_char k)"

text \<open>
  \<^verbatim>\<open>except Exception as error_msg: raise Exception(error_msg)\<close> (lines 91-92):
  \<^verbatim>\<open>SystemExit\<close> is no \<^verbatim>\<open>Exception\<close> and passes through.
\<close>

fun reraise :: "py_error + 'a \<Rightarrow> py_error + 'a" where
  "reraise (Inl (SystemExit n)) = Inl (SystemExit n)"
| "reraise (Inl err) = Inl (Exception err)"
| "reraise (Inr v) = Inr v"

text \<open>
  \<^verbatim>\<open>slack_api_http\<close>, lines 50-93. The result \<open>Inr None\<close> is Python's \<^verbatim>\<open>None\<close>.
  The recursive call of line 90 passes four arguments, so its \<^verbatim>\<open>as_bot\<close> is the
  default \<^verbatim>\<open>False\<close>.
\<close>

partial_function (option) slack_api_http ::
  "settings \<Rightarrow> env \<Rightarrow> string \<Rightarrow> (string \<times> pvalue) list \<Rightarrow> string \<Rightarrow> rat \<Rightarrow> bool \<Rightarrow> trace
     \<Rightarrow> ((py_error + body option) \<times> trace) option" where
  "slack_api_http cfg e api_endpoint payload' method retry_delay as_bot w =
     (let uri' = ''https://slack.com/api/'' @ api_endpoint;
          token = (if as_bot then bot_slack_token cfg else slack_token cfg);
          headers' = [(''Authorization'', ''Bearer '' @ token)];
          w = (if retry_delay > 0 then w @ [Sleep retry_delay] else w);
          w = w @ [Http \<lparr>uri = uri',
                         verb = (if method = ''POST'' then POST else GET),
                         payload = payload', headers = headers'\<rparr>]
      in case server e w of
           Failed \<Rightarrow> Some (Inl (Exception RequestException), w)
         | Answered response \<Rightarrow>
             if status_code response = 200 then
               (case json response of
                  None \<Rightarrow> Some (Inl (Exception JSONDecodeError), w)
                | Some b \<Rightarrow>
                    if map_of b ''error'' = Some (JStr ''not_authed'') then
                      Some (Inl (SystemExit 1),
                            w @ [Log Error
                              ''Need to setup auth. eg, SLACK_TOKEN=<secret token> python slack-autoarchive.py''])
                    else
                      (case map_of b ''ok'' of
                         None \<Rightarrow> Some (Inl (Exception (KeyError ''ok'')), w)
                       | Some v \<Rightarrow>
                           if truthy v then Some (Inr (Some b), w)
                           else Some (Inr None, w)))
             else if status_code response = 429 then
               (case header (resp_headers response) ''Retry-After'' of
                  None \<Rightarrow> Some (Inl (Exception (KeyError ''retry-after'')), w)
                | Some h \<Rightarrow>
                    (case float_of e h of
                       None \<Rightarrow> Some (Inl (Exception ValueError), w)
                     | Some retry_timeout \<Rightarrow>
                         Option.bind
                           (slack_api_http cfg e api_endpoint payload' method retry_timeout False w)
                           (\<lambda>rw. Some (reraise (fst rw), snd rw))))
             else Some (Inr None, w))"

declare slack_api_http.simps [code]

subsection \<open>Listing the channels\<close>

text \<open>
  \<^verbatim>\<open>for channel in channels\<close> with the projection of lines 109-116, on each type that the
  value under \<^verbatim>\<open>"channels"\<close> can have.
\<close>

definition project_channel :: "raw_channel \<Rightarrow> channel" where
  "project_channel c =
     \<lparr>chan_id = raw_id c, name = raw_name c, created = raw_created c,
      num_members = raw_num_members c, topic = value (raw_topic c),
      purpose = value (raw_purpose c)\<rparr>"

fun project_channels :: "jvalue \<Rightarrow> py_error + channel list" where
  "project_channels (JChannels cs) = Inr (map project_channel cs)"
| "project_channels (JMessages []) = Inr []"
| "project_channels (JMessages (m # ms)) = Inl (KeyError ''id'')"
| "project_channels (JStr []) = Inr []"
| "project_channels (JStr (c # cs)) = Inl TypeError"
| "project_channels JNull = Inl TypeError"
| "project_channels (JBool b) = Inl TypeError"
| "project_channels (JNum n) = Inl TypeError"

text \<open>\<^verbatim>\<open>get_all_channels\<close>, lines 95-118.\<close>

definition get_all_channels :: "settings \<Rightarrow> env \<Rightarrow> trace \<Rightarrow> channel list io" where
  "get_all_channels cfg e w =
     (let payload' = [(''exclude_archived'', PInt 1), (''limit'', PInt 1000)];
          api_endpoint = ''conversations.list''
      in and_then (slack_api_http cfg e api_endpoint payload' ''GET'' 0 False w)
           (\<lambda>r w. case r of
                     None \<Rightarrow> Some (Inl TypeError, w)
                   | Some b \<Rightarrow>
                       (case map_of b ''channels'' of
                          None \<Rightarrow> Some (Inl (KeyError ''channels''), w)
                        | Some channels \<Rightarrow> Some (project_channels channels, w))))"

subsection \<open>Disuse\<close>

text \<open>\<^verbatim>\<open>is_channel_disused\<close>, lines 145-163.\<close>

definition is_channel_disused ::
  "settings \<Rightarrow> env \<Rightarrow> channel \<Rightarrow> datetime \<Rightarrow> trace \<Rightarrow> bool io" where
  "is_channel_disused cfg e ch too_old w =
     (let payload' = [(''inclusive'', PInt 0), (''oldest'', PInt 0), (''count'', PInt 50)];
          api_endpoint = ''conversations.history'';
          payload' = payload' @ [(''channel'', PStr (chan_id ch))]
      in and_then (slack_api_http cfg e api_endpoint payload' ''GET'' 0 False w)
           (\<lambda>channel_history w.
              case get_last_message_timestamp cfg e channel_history
                     (fromtimestamp e (created ch)) of
                Inl err \<Rightarrow> Some (Inl err, w)
              | Inr last_message_datetime \<Rightarrow>
                  Some (Inr (last_message_is_too_old last_message_datetime too_old
                             \<and> has_min_users cfg ch), w)))"

subsection \<open>Archiving and reporting\<close>

text \<open>\<^verbatim>\<open>send_channel_message\<close>, lines 183-192.\<close>

definition send_channel_message ::
  "settings \<Rightarrow> env \<Rightarrow> string \<Rightarrow> string \<Rightarrow> trace \<Rightarrow> unit io" where
  "send_channel_message cfg e channel_id message w =
     (let payload' = [(''channel'', PStr channel_id),
                      (''username'', PStr ''Auto Archiver''),
                      (''icon_emoji'', PStr '':wave:''),
                      (''text'', PStr message)];
          api_endpoint = ''chat.postMessage''
      in and_then (slack_api_http cfg e api_endpoint payload' ''POST'' 0 True w)
           (\<lambda>r w. Some (Inr (), w)))"

text \<open>\<^verbatim>\<open>archive_channel\<close>, lines 194-205.\<close>

definition archive_channel ::
  "settings \<Rightarrow> env \<Rightarrow> channel \<Rightarrow> string \<Rightarrow> trace \<Rightarrow> unit io" where
  "archive_channel cfg e ch alert w =
     (let api_endpoint = ''conversations.archive'';
          stdout_message = ''Archiving channel... '' @ name ch;
          w = w @ [Log Info stdout_message]
      in if \<not> dry_run cfg then
           (case format_alert e alert (days_inactive cfg) of
              Inl err \<Rightarrow> Some (Inl err, w)
            | Inr channel_message \<Rightarrow>
                and_then (send_channel_message cfg e (chan_id ch) channel_message w)
                  (\<lambda>u w.
                     let payload' = [(''channel'', PStr (chan_id ch))]
                     in and_then (slack_api_http cfg e api_endpoint payload' ''GET'' 0 False w)
                          (\<lambda>r w. Some (Inr (), w @ [Log Info stdout_message]))))
         else Some (Inr (), w))"

text \<open>\<^verbatim>\<open>send_admin_report\<close>, lines 207-214.\<close>

definition send_admin_report ::
  "settings \<Rightarrow> env \<Rightarrow> channel list \<Rightarrow> trace \<Rightarrow> unit io" where
  "send_admin_report cfg e channels w =
     (case admin_channel cfg of
        None \<Rightarrow> Some (Inr (), w)
      | Some ac \<Rightarrow>
          if ac \<noteq> [] then
            (let channel_names = join '', '' (map (\<lambda>ch. ''#'' @ name ch) channels);
                 admin_msg = ''Archiving '' @ show_nat (length channels)
                             @ '' channels: '' @ channel_names;
                 admin_msg = (if dry_run cfg then ''[DRY RUN] '' @ admin_msg else admin_msg)
             in send_channel_message cfg e ac admin_msg w)
          else Some (Inr (), w))"

text \<open>\<^verbatim>\<open>generate_report\<close>, lines 216-220. The text written is kept apart, to speak about it.\<close>

definition report_text :: "channel list \<Rightarrow> string" where
  "report_text channels = join [CHR 0x0A] (map name channels)"

definition generate_report :: "env \<Rightarrow> channel list \<Rightarrow> trace \<Rightarrow> unit io" where
  "generate_report e channels w =
     (let file_name = ''report-'' @ now_stamp e @ ''.txt''
      in Some (Inr (), w @ [WriteFile file_name (report_text channels)]))"

subsection \<open>The orchestrator\<close>

text \<open>\<^verbatim>\<open>get_channel_alerts\<close>, lines 44-48.\<close>

definition get_channel_alerts :: "env \<Rightarrow> py_error + (string \<times> string) list" where
  "get_channel_alerts e = templates_json e"

text \<open>
  The loop of \<^verbatim>\<open>main\<close>, lines 233-245, with \<^verbatim>\<open>archived_channels\<close> as accumulator.
  \<^verbatim>\<open>alert_templates["channel_template"]\<close> is looked up when a channel is archived.
\<close>

fun main_loop ::
  "settings \<Rightarrow> env \<Rightarrow> string list \<Rightarrow> (string \<times> string) list \<Rightarrow> channel list
     \<Rightarrow> channel list \<Rightarrow> trace \<Rightarrow> channel list io" where
  "main_loop cfg e whitelist alert_templates [] archived_channels w =
     Some (Inr archived_channels, w)"
| "main_loop cfg e whitelist alert_templates (ch # rest) archived_channels w =
     (let w = w @ [Stdout ''.''];
          channel_whitelisted = is_channel_whitelisted cfg ch whitelist
      in and_then (is_channel_disused cfg e ch (too_old_datetime cfg) w)
           (\<lambda>channel_disused w.
              if \<not> channel_whitelisted \<and> channel_disused then
                (let archived_channels = archived_channels @ [ch]
                 in case map_of alert_templates ''channel_template'' of
                      None \<Rightarrow> Some (Inl (KeyError ''channel_template''), w)
                    | Some alert \<Rightarrow>
                        and_then (archive_channel cfg e ch alert w)
                          (\<lambda>u w. main_loop cfg e whitelist alert_templates rest
                                    archived_channels w))
              else main_loop cfg e whitelist alert_templates rest archived_channels w))"

text \<open>\<^verbatim>\<open>main\<close>, lines 222-248.\<close>

definition main :: "settings \<Rightarrow> env \<Rightarrow> trace \<Rightarrow> unit io" where
  "main cfg e w =
     (let w = (if dry_run cfg
               then w @ [Log Info ''THIS IS A DRY RUN. NO CHANNELS ARE ACTUALLY ARCHIVED.'']
               else w)
      in case get_whitelist_keywords cfg e of
           Inl err \<Rightarrow> Some (Inl err, w)
         | Inr whitelist \<Rightarrow>
             (case get_channel_alerts e of
                Inl err \<Rightarrow> Some (Inl err, w)
              | Inr alert_templates \<Rightarrow>
                  and_then (get_all_channels cfg e w)
                    (\<lambda>channels w.
                       and_then (main_loop cfg e whitelist alert_templates channels [] w)
                         (\<lambda>archived_channels w.
                            and_then (send_admin_report cfg e archived_channels w)
                              (\<lambda>u w. generate_report e archived_channels w)))))"

subsection \<open>The orchestrator, as the specification words it\<close>

text \<open>
  For each listed channel, in order: the disuse evaluation runs whatever the whitelist
  evaluation says; the channel is archived and joins the archived list exactly when it is
  not whitelisted and is disused. The relation holds between the listed channels, the trace
  before the loop, the archived list and the trace after the loop.
\<close>

inductive orchestrated ::
  "settings \<Rightarrow> env \<Rightarrow> string list \<Rightarrow> (string \<times> string) list \<Rightarrow> channel list \<Rightarrow> trace
     \<Rightarrow> channel list \<Rightarrow> trace \<Rightarrow> bool"
  for cfg :: settings and e :: env and whitelist :: "string list"
    and alert_templates :: "(string \<times> string) list" where
  orchestrated_done:
    "orchestrated cfg e whitelist alert_templates [] w [] w"
| orchestrated_archive:
    "is_channel_disused cfg e ch (too_old_datetime cfg) (w @ [Stdout ''.''])
       = Some (Inr disused, w1)
     \<Longrightarrow> \<not> is_channel_whitelisted cfg ch whitelist \<and> disused
     \<Longrightarrow> map_of alert_templates ''channel_template'' = Some alert
     \<Longrightarrow> archive_channel cfg e ch alert w1 = Some (Inr (), w2)
     \<Longrightarrow> orchestrated cfg e whitelist alert_templates rest w2 archived w3
     \<Longrightarrow> orchestrated cfg e whitelist alert_templates (ch # rest) w (ch # archived) w3"
| orchestrated_keep:
    "is_channel_disused cfg e ch (too_old_datetime cfg) (w @ [Stdout ''.''])
       = Some (Inr disused, w1)
     \<Longrightarrow> \<not> (\<not> is_channel_whitelisted cfg ch whitelist \<and> disused)
     \<Longrightarrow> orchestrated cfg e whitelist alert_templates rest w1 archived w3
     \<Longrightarrow> orchestrated cfg e whitelist alert_templates (ch # rest) w archived w3"

text \<open>The request that \<^verbatim>\<open>is_channel_disused\<close> issues first for a channel.\<close>

definition history_request :: "settings \<Rightarrow> channel \<Rightarrow> request" where
  "history_request cfg ch =
     \<lparr>uri = ''https://slack.com/api/conversations.history'', verb = GET,
      payload = [(''inclusive'', PInt 0), (''oldest'', PInt 0), (''count'', PInt 50),
                 (''channel'', PStr (chan_id ch))],
      headers = [(''Authorization'', ''Bearer '' @ slack_token cfg)]\<rparr>"

text \<open>The addresses of the requests in a trace, in order.\<close>

fun request_uris :: "trace \<Rightarrow> string list" where
  "request_uris [] = []"
| "request_uris (Http r # evs) = uri r # request_uris evs"
| "request_uris (ev # evs) = request_uris evs"

text \<open>
  A computation took the trace \<open>w\<close> to \<open>w'\<close> by adding events at its end, among them
  requests to the given addresses only.
\<close>

definition extends_by :: "trace \<Rightarrow> trace \<Rightarrow> string set \<Rightarrow> bool" where
  "extends_by w w' uris = (\<exists>evs. w' = w @ evs \<and> set (request_uris evs) \<subseteq> uris)"

subsection \<open>A workspace to run the program on\<close>

text \<open>
  Two channels: \<^verbatim>\<open>old-proj\<close> (three members, no topic, no purpose) and \<^verbatim>\<open>lobby\<close>, whose
  purpose carries the exemption marker. The platform lists both and has no history for
  either. A second platform answers the first request with 429 and \<^verbatim>\<open>Retry-After: 2\<close>.
\<close>

definition example_settings :: settings where
  "example_settings =
     \<lparr>slack_token = ''xoxp-user'', bot_slack_token = ''xoxb-bot'', dry_run = True,
      min_members = 5, days_inactive = 60, admin_channel = Some ''C0ADMIN'',
      skip_subtypes = [''channel_leave'', ''channel_join''],
      skip_channel_str = ''KEEP-ALIVE'', whitelist_keywords = None,
      too_old_datetime = 1700000000\<rparr>"

definition old_proj :: channel where
  "old_proj =
     \<lparr>chan_id = ''C1'', name = ''old-proj'', created = 1000000000, num_members = 3,
      topic = [], purpose = []\<rparr>"

definition lobby :: channel where
  "lobby =
     \<lparr>chan_id = ''C2'', name = ''lobby'', created = 1000000000, num_members = 2,
      topic = [], purpose = ''KEEP-ALIVE do not archive''\<rparr>"

definition raw_of :: "channel \<Rightarrow> raw_channel" where
  "raw_of ch =
     \<lparr>raw_id = chan_id ch, raw_name = name ch, raw_created = created ch,
      raw_num_members = num_members ch, raw_topic = \<lparr>value = topic ch\<rparr>,
      raw_purpose = \<lparr>value = purpose ch\<rparr>\<rparr>"

definition ok_response :: "body \<Rightarrow> outcome" where
  "ok_response b =
     Answered \<lparr>status_code = 200, resp_headers = [], json = Some ((''ok'', JBool True) # b)\<rparr>"

definition example_server :: "trace \<Rightarrow> outcome" where
  "example_server w =
     (if request_uris w = [] then Failed
      else if last (request_uris w) = ''https://slack.com/api/conversations.list''
      then ok_response [(''channels'', JChannels [raw_of old_proj, raw_of lobby])]
      else ok_response [])"

definition limited_server :: "trace \<Rightarrow> outcome" where
  "limited_server w =
     (if length (request_uris w) = 1
      then Answered \<lparr>status_code = 429, resp_headers = [(''Retry-After'', ''2'')],
                     json = None\<rparr>
      else ok_response [])"

definition example_env :: env where
  "example_env =
     \<lparr>whitelist_txt = Some [''general'' @ [CHR 0x0A]],
      templates_json = Inr [(''channel_template'', ''No activity for {days_inactive} days.'')],
      server = example_server,
      utc_offset = (\<lambda>t. 0),
      float_of = (\<lambda>s. if s = ''2'' then Some 2 else None),
      format_alert = (\<lambda>alert n. Inr alert),
      now_stamp = ''11042026120000''\<rparr>"

text \<open>
  A third platform, whose history of every channel is one \<^verbatim>\<open>channel_join\<close> message.
\<close>

definition joins_only_server :: "trace \<Rightarrow> outcome" where
  "joins_only_server w =
     ok_response [(''messages'',
                   JMessages [\<lparr>subtype = Some ''channel_join'', ts = 1600000000\<rparr>])]"

text \<open>A fourth platform, which is down: every request is answered with status 500.\<close>

definition unavailable_server :: "trace \<Rightarrow> outcome" where
  "unavailable_server w = Answered \<lparr>status_code = 500, resp_headers = [], json = None\<rparr>"

section \<open>Properties\<close>

subsection \<open>Sequencing\<close>

lemma and_then_simps [simp]:
  "and_then None f = None"
  "and_then (Some (Inl err, w)) f = Some (Inl err, w)"
  "and_then (Some (Inr x, w)) f = f x w"
  by (simp_all add: and_then_def)

lemma and_then_eq_Some_Inr:
  "and_then m f = Some (Inr y, w')
     \<longleftrightarrow> (\<exists>x w1. m = Some (Inr x, w1) \<and> f x w1 = Some (Inr y, w'))"
  by (auto simp: and_then_def split: option.splits sum.splits prod.splits)

subsection \<open>Substrings\<close>

lemma starts_with_iff: "starts_with s p \<longleftrightarrow> (\<exists>post. s = p @ post)"
  by (induction s p rule: starts_with.induct) auto

lemma str_in_iff: "str_in needle hay \<longleftrightarrow> (\<exists>pre post. hay = pre @ needle @ post)"
proof (induction hay)
  case Nil
  then show ?case by auto
next
  case (Cons c cs)
  show ?case
  proof
    assume "str_in needle (c # cs)"
    then consider "starts_with (c # cs) needle" | "str_in needle cs" by auto
    then show "\<exists>pre post. c # cs = pre @ needle @ post"
    proof cases
      case 1
      then obtain post where "c # cs = needle @ post" by (auto simp: starts_with_iff)
      then have "c # cs = [] @ needle @ post" by simp
      then show ?thesis by blast
    next
      case 2
      with Cons obtain pre post where "cs = pre @ needle @ post" by auto
      then have "c # cs = (c # pre) @ needle @ post" by simp
      then show ?thesis by blast
    qed
  next
    assume "\<exists>pre post. c # cs = pre @ needle @ post"
    then obtain pre post where eq: "c # cs = pre @ needle @ post" by blast
    show "str_in needle (c # cs)"
    proof (cases pre)
      case Nil
      with eq have "starts_with (c # cs) needle" by (auto simp: starts_with_iff)
      then show ?thesis by simp
    next
      case (Cons p ps)
      with eq have "cs = ps @ needle @ post" by simp
      with Cons.IH have "str_in needle cs" by blast
      then show ?thesis by simp
    qed
  qed
qed

subsection \<open>The minimum-members threshold\<close>




subsection \<open>A history without messages\<close>

text \<open>
  C2, as the specification states it: a history that is a mapping without the key
  \<^verbatim>\<open>"messages"\<close> resolves to the epoch. It does not: for the answer \<^verbatim>\<open>{"ok": true}\<close> the
  result is the fallback that the caller passed, here the creation time of the channel.
\<close>

theorem history_without_messages_counterexample:
  "map_of [(''ok'', JBool True)] ''messages'' = None
   \<and> get_last_message_timestamp example_settings example_env (Some [(''ok'', JBool True)])
        (fromtimestamp example_env (created old_proj)) = Inr 1000000000
   \<and> get_last_message_timestamp example_settings example_env (Some [(''ok'', JBool True)])
        (fromtimestamp example_env (created old_proj)) \<noteq> Inr (utcfromtimestamp 0)"
  by (simp add: get_last_message_timestamp_def fromtimestamp_def utcfromtimestamp_def
      example_env_def old_proj_def)

text \<open>
  C2, amended:
  \<^item> if the history is absent (\<^verbatim>\<open>None\<close>) or an empty mapping, both false in Python,
    \<^verbatim>\<open>get_last_message_timestamp\<close> resolves the last activity to the epoch, whatever the
    fallback; so when the history request returns nothing, \<^verbatim>\<open>is_channel_disused\<close> treats
    the channel as maximally old: it is disused exactly when the epoch is not after the
    cutoff and the membership condition holds;
  \<^item> if the history is a non-empty mapping without the key \<^verbatim>\<open>"messages"\<close>,
    \<^verbatim>\<open>get_last_message_timestamp\<close> returns the fallback it was given; so when the history
    request returns such a mapping, the last activity is the creation time of the channel,
    and the channel is disused exactly when its creation is not after the cutoff and the
    membership condition holds.
\<close>

theorem history_without_messages:
  "get_last_message_timestamp cfg e None fallback = Inr (utcfromtimestamp 0)
   \<and> get_last_message_timestamp cfg e (Some []) fallback = Inr (utcfromtimestamp 0)
   \<and> (h \<noteq> [] \<and> map_of h ''messages'' = None \<longrightarrow>
        get_last_message_timestamp cfg e (Some h) fallback = Inr fallback)
   \<and> (slack_api_http cfg e ''conversations.history''
          [(''inclusive'', PInt 0), (''oldest'', PInt 0), (''count'', PInt 50),
           (''channel'', PStr (chan_id ch))] ''GET'' 0 False w
        = Some (Inr None, w') \<longrightarrow>
        is_channel_disused cfg e ch too_old w
        = Some (Inr (utcfromtimestamp 0 \<le> too_old \<and> has_min_users cfg ch), w'))
   \<and> (slack_api_http cfg e ''conversations.history''
          [(''inclusive'', PInt 0), (''oldest'', PInt 0), (''count'', PInt 50),
           (''channel'', PStr (chan_id ch))] ''GET'' 0 False w
        = Some (Inr (Some h), w') \<and> h \<noteq> [] \<and> map_of h ''messages'' = None \<longrightarrow>
        is_channel_disused cfg e ch too_old w
        = Some (Inr (fromtimestamp e (created ch) \<le> too_old \<and> has_min_users cfg ch), w'))"
  by (auto simp: is_channel_disused_def get_last_message_timestamp_def
      last_message_is_too_old_def)

theorem history_without_messages_witness:
  "get_last_message_timestamp example_settings example_env None
     (fromtimestamp example_env (created old_proj)) = Inr (utcfromtimestamp 0)
   \<and> get_last_message_timestamp example_settings example_env (Some [])
     (fromtimestamp example_env (created old_proj)) = Inr (utcfromtimestamp 0)
   \<and> get_last_message_timestamp example_settings example_env (Some [(''ok'', JBool True)])
     (fromtimestamp example_env (created old_proj))
     = Inr (fromtimestamp example_env (created old_proj))
   \<and> is_channel_disused example_settings (example_env\<lparr>server := unavailable_server\<rparr>)
       old_proj 500000000 []
     = Some (Inr True, [Http (history_request example_settings old_proj)])
   \<and> is_channel_disused example_settings (example_env\<lparr>server := unavailable_server\<rparr>)
       old_proj (- 1) []
     = Some (Inr False, [Http (history_request example_settings old_proj)])
   \<and> is_channel_disused example_settings example_env old_proj 1700000000 []
     = Some (Inr True, [Http (history_request example_settings old_proj)])
   \<and> is_channel_disused example_settings example_env old_proj 500000000 []
     = Some (Inr False, [Http (history_request example_settings old_proj)])"
proof -
  let ?down = "example_env\<lparr>server := unavailable_server\<rparr>"
  let ?h = "[(''ok'', JBool True)]"
  have absent: "slack_api_http example_settings ?down ''conversations.history''
       [(''inclusive'', PInt 0), (''oldest'', PInt 0), (''count'', PInt 50),
        (''channel'', PStr (chan_id old_proj))] ''GET'' 0 False []
     = Some (Inr None, [Http (history_request example_settings old_proj)])"
    by (simp add: slack_api_http.simps example_settings_def example_env_def
        unavailable_server_def history_request_def old_proj_def)
  have bare: "slack_api_http example_settings example_env ''conversations.history''
       [(''inclusive'', PInt 0), (''oldest'', PInt 0), (''count'', PInt 50),
        (''channel'', PStr (chan_id old_proj))] ''GET'' 0 False []
     = Some (Inr (Some ?h), [Http (history_request example_settings old_proj)])"
    by (simp add: slack_api_http.simps example_settings_def example_env_def
        example_server_def ok_response_def history_request_def old_proj_def)
  have shape: "?h \<noteq> [] \<and> map_of ?h ''messages'' = None" by simp
  show ?thesis
    using
      history_without_messages [of example_settings example_env
        "fromtimestamp example_env (created old_proj)" ?h old_proj "[]"
        "[Http (history_request example_settings old_proj)]" 1700000000]
      history_without_messages [of example_settings example_env
        "fromtimestamp example_env (created old_proj)" ?h old_proj "[]"
        "[Http (history_request example_settings old_proj)]" 500000000]
      history_without_messages [of example_settings ?down
        "fromtimestamp example_env (created old_proj)" ?h old_proj "[]"
        "[Http (history_request example_settings old_proj)]" 500000000]
      history_without_messages [of example_settings ?down
        "fromtimestamp example_env (created old_proj)" ?h old_proj "[]"
        "[Http (history_request example_settings old_proj)]" "- 1"]
      absent bare shape
    by (simp add: fromtimestamp_def utcfromtimestamp_def has_min_users_def example_env_def
        example_settings_def old_proj_def)
qed

subsection \<open>The whitelist keywords\<close>

text \<open>
  C4: with the keyword setting present, \<^verbatim>\<open>get_whitelist_keywords\<close> should return the
  trimmed lines of the file followed by the keywords of the setting. The code adds a list
  to the iterator that \<^verbatim>\<open>map\<close> returns (line 41), which raises \<^verbatim>\<open>TypeError\<close>: with the
  setting \<^verbatim>\<open>"general,random"\<close> no list is returned at all.
\<close>

theorem get_whitelist_keywords_raises:
  "get_whitelist_keywords (example_settings\<lparr>whitelist_keywords := Some ''general,random''\<rparr>)
     example_env = Inl TypeError"
  by (simp add: get_whitelist_keywords_def example_settings_def example_env_def)

subsection \<open>The exemption marker\<close>

text \<open>
  C5: a channel whose purpose or topic contains the exemption marker as a substring is
  whitelisted, whatever its name and whatever the whitelist.
\<close>

theorem marker_whitelists:
  "(\<exists>pre post. purpose ch = pre @ skip_channel_str cfg @ post)
     \<or> (\<exists>pre post. topic ch = pre @ skip_channel_str cfg @ post)
   \<Longrightarrow> is_channel_whitelisted cfg ch white_listed_channels = True"
  by (auto simp: is_channel_whitelisted_def str_in_iff)

theorem marker_whitelists_witness:
  "purpose lobby = [] @ skip_channel_str example_settings @ '' do not archive''
   \<and> is_channel_whitelisted example_settings lobby [] = True"
proof -
  have here: "purpose lobby = [] @ skip_channel_str example_settings @ '' do not archive''"
    by (simp add: lobby_def example_settings_def)
  then have "(\<exists>pre post. purpose lobby = pre @ skip_channel_str example_settings @ post)
     \<or> (\<exists>pre post. topic lobby = pre @ skip_channel_str example_settings @ post)"
    by blast
  from marker_whitelists [OF this] here show ?thesis by simp
qed

subsection \<open>Archiving in a dry run\<close>

text \<open>
  C6: with the dry-run flag set, \<^verbatim>\<open>archive_channel\<close> returns after adding exactly one
  event to the trace, the log line of its intent: no message is posted, no channel is
  archived, no request is issued.
\<close>

theorem archive_channel_dry_run:
  "dry_run cfg \<Longrightarrow>
   archive_channel cfg e ch alert w
     = Some (Inr (), w @ [Log Info (''Archiving channel... '' @ name ch)])"
  by (simp add: archive_channel_def)

theorem archive_channel_dry_run_witness:
  "dry_run example_settings
   \<and> archive_channel example_settings example_env old_proj ''unused'' []
       = Some (Inr (), [Log Info ''Archiving channel... old-proj''])"
proof -
  have dry: "dry_run example_settings" by (simp add: example_settings_def)
  from archive_channel_dry_run [OF dry, of example_env old_proj "''unused''" "[]"] dry
  show ?thesis by (simp add: old_proj_def)
qed

subsection \<open>An empty whitelist name\<close>

lemma str_in_empty: "str_in [] s"
  by (cases s) simp_all

lemma whitelisted_by_empty_name:
  "kw \<in> set white_listed_channels \<Longrightarrow> strip_chars ''#'' kw = []
   \<Longrightarrow> whitelisted_by_name ch white_listed_channels"
  by (induction white_listed_channels) (auto simp: str_in_empty)

text \<open>
  C9: when an entry of the whitelist is empty once its \<^verbatim>\<open>#\<close> characters are stripped,
  every channel is whitelisted, since the empty string occurs in every name.
\<close>

theorem empty_name_whitelists_all:
  "kw \<in> set white_listed_channels \<Longrightarrow> strip_chars ''#'' kw = []
   \<Longrightarrow> is_channel_whitelisted cfg ch white_listed_channels = True"
  by (simp add: is_channel_whitelisted_def whitelisted_by_empty_name)

theorem empty_name_whitelists_all_witness:
  "get_whitelist_keywords example_settings
     (example_env\<lparr>whitelist_txt := Some [''general'' @ [CHR 0x0A], [CHR 0x0A]]\<rparr>)
     = Inr [''general'', []]
   \<and> strip_chars ''#'' [] = []
   \<and> is_channel_whitelisted example_settings old_proj [''general'', []] = True"
proof -
  have mem: "[] \<in> set [''general'', []]" by simp
  have emp: "strip_chars ''#'' [] = []" by (simp add: strip_chars_def strip_where_def)
  have kws: "get_whitelist_keywords example_settings
     (example_env\<lparr>whitelist_txt := Some [''general'' @ [CHR 0x0A], [CHR 0x0A]]\<rparr>)
     = Inr [''general'', []]"
    by (simp add: get_whitelist_keywords_def example_settings_def example_env_def strip_def
        strip_where_def py_isspace_def)
  from empty_name_whitelists_all [OF mem emp, of example_settings old_proj] emp kws
  show ?thesis by simp
qed

subsection \<open>A history of skipped messages only\<close>

lemma first_kept_message_all_skipped:
  "\<forall>m \<in> set ms. \<exists>st. subtype m = Some st \<and> st \<in> set (skip_subtypes cfg)
   \<Longrightarrow> first_kept_message cfg e ms fallback = fallback"
  by (induction ms) auto

text \<open>
  C10: when the history request returns a non-empty list of messages each of which carries
  a subtype of the skipped ones, the last activity resolves to the fallback that
  \<^verbatim>\<open>is_channel_disused\<close> passes, the creation time of the channel, and the channel is
  disused exactly when its creation is not after the cutoff and the membership condition
  holds.
\<close>

theorem history_of_skipped_messages:
  assumes "slack_api_http cfg e ''conversations.history''
             [(''inclusive'', PInt 0), (''oldest'', PInt 0), (''count'', PInt 50),
              (''channel'', PStr (chan_id ch))] ''GET'' 0 False w
           = Some (Inr (Some h), w')"
    and "map_of h ''messages'' = Some (JMessages ms)"
    and "ms \<noteq> []"
    and "\<forall>m \<in> set ms. \<exists>st. subtype m = Some st \<and> st \<in> set (skip_subtypes cfg)"
  shows "get_last_message_timestamp cfg e (Some h) (fromtimestamp e (created ch))
           = Inr (fromtimestamp e (created ch))
         \<and> is_channel_disused cfg e ch too_old w
           = Some (Inr (fromtimestamp e (created ch) \<le> too_old \<and> has_min_users cfg ch), w')"
proof -
  from assms(2) have "h \<noteq> []" by auto
  with assms(2) first_kept_message_all_skipped [OF assms(4)]
  have last: "get_last_message_timestamp cfg e (Some h) (fromtimestamp e (created ch))
           = Inr (fromtimestamp e (created ch))"
    by (simp add: get_last_message_timestamp_def datetime_truthy_def)
  with assms(1) show ?thesis
    by (simp add: is_channel_disused_def last_message_is_too_old_def)
qed

theorem history_of_skipped_messages_witness:
  "is_channel_disused example_settings (example_env\<lparr>server := joins_only_server\<rparr>) old_proj
     1700000000 []
   = Some (Inr True, [Http (history_request example_settings old_proj)])
   \<and> is_channel_disused example_settings (example_env\<lparr>server := joins_only_server\<rparr>) old_proj
     500000000 []
   = Some (Inr False, [Http (history_request example_settings old_proj)])"
proof -
  let ?ms = "[\<lparr>subtype = Some ''channel_join'', ts = 1600000000\<rparr>]"
  let ?h = "[(''ok'', JBool True), (''messages'', JMessages ?ms)]"
  let ?e = "example_env\<lparr>server := joins_only_server\<rparr>"
  have run: "slack_api_http example_settings ?e ''conversations.history''
       [(''inclusive'', PInt 0), (''oldest'', PInt 0), (''count'', PInt 50),
        (''channel'', PStr (chan_id old_proj))] ''GET'' 0 False []
     = Some (Inr (Some ?h), [Http (history_request example_settings old_proj)])"
    by (simp add: slack_api_http.simps example_settings_def example_env_def
        joins_only_server_def ok_response_def history_request_def old_proj_def)
  have msgs: "map_of ?h ''messages'' = Some (JMessages ?ms)" by simp
  have nonempty: "?ms \<noteq> []" by simp
  have skipped: "\<forall>m \<in> set ?ms. \<exists>st. subtype m = Some st
                   \<and> st \<in> set (skip_subtypes example_settings)"
    by (simp add: example_settings_def)
  show ?thesis
    using history_of_skipped_messages [OF run msgs nonempty skipped, of 1700000000]
      history_of_skipped_messages [OF run msgs nonempty skipped, of 500000000]
    by (simp add: fromtimestamp_def example_env_def old_proj_def has_min_users_def
        example_settings_def)
qed

subsection \<open>What a computation adds to the trace\<close>

lemma request_uris_append: "request_uris (a @ b) = request_uris a @ request_uris b"
  by (induction a rule: request_uris.induct) simp_all

lemma extends_by_refl: "extends_by w w uris"
  by (simp add: extends_by_def)

lemma extends_by_mono: "extends_by w w' uris \<Longrightarrow> uris \<subseteq> bigger \<Longrightarrow> extends_by w w' bigger"
  by (auto simp: extends_by_def)

lemma extends_by_trans:
  "extends_by w w1 uris \<Longrightarrow> extends_by w1 w2 uris \<Longrightarrow> extends_by w w2 uris"
  by (auto simp: extends_by_def request_uris_append)

lemma extends_by_log: "extends_by w (w @ [Log lv msg]) uris"
  by (simp add: extends_by_def)

lemma extends_by_stdout: "extends_by w (w @ [Stdout msg]) uris"
  by (simp add: extends_by_def)

lemma extends_by_sleep: "extends_by w (w @ [Sleep d]) uris"
  by (simp add: extends_by_def)

lemma extends_by_request: "uri r \<in> uris \<Longrightarrow> extends_by w (w @ [Http r]) uris"
  by (simp add: extends_by_def)


lemma and_then_extends_by:
  assumes "and_then m f = Some (r, w')"
    and "\<And>r1 w1. m = Some (r1, w1) \<Longrightarrow> extends_by w w1 uris"
    and "\<And>x w1 r2 w2. f x w1 = Some (r2, w2) \<Longrightarrow> extends_by w1 w2 uris"
  shows "extends_by w w' uris"
proof (cases m)
  case None
  with assms(1) show ?thesis by simp
next
  case (Some p)
  obtain r1 w1 where p: "p = (r1, w1)" by (cases p)
  from assms(2) Some p have first: "extends_by w w1 uris" by blast
  show ?thesis
  proof (cases r1)
    case (Inl err)
    with assms(1) Some p have "w' = w1" by simp
    with first show ?thesis by simp
  next
    case (Inr x)
    with assms(1) Some p have "f x w1 = Some (r, w')" by simp
    then have "extends_by w1 w' uris" by (rule assms(3))
    with first show ?thesis by (rule extends_by_trans)
  qed
qed

lemma slack_api_http_extends_aux:
  "slack_api_http cfg e ep pl m d b w = Some y
   \<Longrightarrow> extends_by w (snd y) {''https://slack.com/api/'' @ ep}"
proof (induction cfg e ep pl m d b w y rule: slack_api_http.raw_induct[rotated 1, consumes 1])
  case (1 f cfg e ep pl m d b w y)
  let ?uris = "{''https://slack.com/api/'' @ ep}"
  define w1 where "w1 = (if 0 < d then w @ [Sleep d] else w) @
      [Http \<lparr>uri = ''https://slack.com/api/'' @ ep,
             verb = (if m = ''POST'' then POST else GET), payload = pl,
             headers = [(''Authorization'',
                         ''Bearer '' @ (if b then bot_slack_token cfg else slack_token cfg))]\<rparr>]"
  have w1: "extends_by w w1 ?uris"
    by (simp add: w1_def extends_by_def)
  have ih: "extends_by w (snd y') ?uris" if "f cfg e ep pl m t False w1 = Some y'" for t y'
    using extends_by_trans [OF w1 1(1) [OF that]] .
  have logged: "extends_by w (w1 @ [Log lv msg]) ?uris" for lv msg
    using extends_by_trans [OF w1 extends_by_log] .
  note hyp = 1(2) [unfolded Let_def, folded w1_def]
  show ?case
    using hyp w1 logged
    apply (cases "server e w1")
     apply (auto simp: bind_eq_Some_conv split: if_splits option.splits dest!: ih)
    done
qed

lemma slack_api_http_extends:
  "slack_api_http cfg e ep pl m d b w = Some (r, w')
   \<Longrightarrow> extends_by w w' {''https://slack.com/api/'' @ ep}"
  using slack_api_http_extends_aux by fastforce


lemma and_then_cases:
  assumes "and_then m f = Some (r, w')"
  obtains (raised) err where "m = Some (Inl err, w')" "r = Inl err"
        | (went_on) x w1 where "m = Some (Inr x, w1)" "f x w1 = Some (r, w')"
  using assms
  by (auto simp: and_then_def split: option.splits sum.splits prod.splits)

lemma get_all_channels_extends:
  assumes "get_all_channels cfg e w = Some (r, w')"
  shows "extends_by w w' {''https://slack.com/api/conversations.list''}"
  using assms unfolding get_all_channels_def Let_def
proof (rule and_then_extends_by)
  fix r1 w1
  assume "slack_api_http cfg e ''conversations.list''
            [(''exclude_archived'', PInt 1), (''limit'', PInt 1000)] ''GET'' 0 False w
          = Some (r1, w1)"
  from slack_api_http_extends [OF this]
  show "extends_by w w1 {''https://slack.com/api/conversations.list''}" by simp
next
  fix x :: "body option" and w1 w2 :: trace and r2 :: "py_error + channel list"
  assume "(case x of
             None \<Rightarrow> Some (Inl TypeError, w1)
           | Some b \<Rightarrow>
               (case map_of b ''channels'' of
                  None \<Rightarrow> Some (Inl (KeyError ''channels''), w1)
                | Some channels \<Rightarrow> Some (project_channels channels, w1))) = Some (r2, w2)"
  then have "w2 = w1" by (auto split: option.splits)
  then show "extends_by w1 w2 {''https://slack.com/api/conversations.list''}"
    by (simp add: extends_by_refl)
qed

lemma is_channel_disused_cases:
  assumes "is_channel_disused cfg e ch too_old w = Some (r, w')"
  obtains r1 where
    "slack_api_http cfg e ''conversations.history''
       [(''inclusive'', PInt 0), (''oldest'', PInt 0), (''count'', PInt 50),
        (''channel'', PStr (chan_id ch))] ''GET'' 0 False w = Some (r1, w')"
  using assms unfolding is_channel_disused_def Let_def
  by (elim and_then_cases) (auto split: sum.splits)

lemma is_channel_disused_extends:
  assumes "is_channel_disused cfg e ch too_old w = Some (r, w')"
  shows "extends_by w w' {''https://slack.com/api/conversations.history''}"
  using assms
proof (rule is_channel_disused_cases)
  fix r1
  assume "slack_api_http cfg e ''conversations.history''
       [(''inclusive'', PInt 0), (''oldest'', PInt 0), (''count'', PInt 50),
        (''channel'', PStr (chan_id ch))] ''GET'' 0 False w = Some (r1, w')"
  from slack_api_http_extends [OF this] show ?thesis by simp
qed


lemma send_channel_message_extends:
  assumes "send_channel_message cfg e channel_id message w = Some (r, w')"
  shows "extends_by w w' {''https://slack.com/api/chat.postMessage''}"
  using assms unfolding send_channel_message_def Let_def
proof (rule and_then_extends_by)
  fix r1 w1
  assume "slack_api_http cfg e ''chat.postMessage''
            [(''channel'', PStr channel_id), (''username'', PStr ''Auto Archiver''),
             (''icon_emoji'', PStr '':wave:''), (''text'', PStr message)] ''POST'' 0 True w
          = Some (r1, w1)"
  from slack_api_http_extends [OF this]
  show "extends_by w w1 {''https://slack.com/api/chat.postMessage''}" by simp
next
  fix x :: "body option" and w1 w2 :: trace and r2 :: "py_error + unit"
  assume "Some (Inr (), w1) = Some (r2, w2)"
  then show "extends_by w1 w2 {''https://slack.com/api/chat.postMessage''}"
    by (auto simp: extends_by_refl)
qed


lemma send_admin_report_extends:
  assumes "send_admin_report cfg e channels w = Some (r, w')"
  shows "extends_by w w' {''https://slack.com/api/chat.postMessage''}"
proof (cases "admin_channel cfg")
  case None
  with assms have "w' = w" by (simp add: send_admin_report_def)
  then show ?thesis by (simp add: extends_by_refl)
next
  case (Some ac)
  show ?thesis
  proof (cases "ac = []")
    case True
    with Some assms have "w' = w" by (simp add: send_admin_report_def)
    then show ?thesis by (simp add: extends_by_refl)
  next
    case False
    with Some assms obtain msg where
      "send_channel_message cfg e ac msg w = Some (r, w')"
      by (simp add: send_admin_report_def Let_def)
    then show ?thesis by (rule send_channel_message_extends)
  qed
qed

subsection \<open>The loop and the specification's orchestration\<close>




lemma main_returns_iff:
  "main cfg e w = Some (Inr (), w') \<longleftrightarrow>
     (\<exists>whitelist tpl channels w1 archived w2 w3.
        get_whitelist_keywords cfg e = Inr whitelist
      \<and> get_channel_alerts e = Inr tpl
      \<and> get_all_channels cfg e
           (if dry_run cfg
            then w @ [Log Info ''THIS IS A DRY RUN. NO CHANNELS ARE ACTUALLY ARCHIVED.'']
            else w) = Some (Inr channels, w1)
      \<and> main_loop cfg e whitelist tpl channels [] w1 = Some (Inr archived, w2)
      \<and> send_admin_report cfg e archived w2 = Some (Inr (), w3)
      \<and> w' = w3 @ [WriteFile (''report-'' @ now_stamp e @ ''.txt'') (report_text archived)])"
  unfolding main_def generate_report_def Let_def
  by (cases "get_whitelist_keywords cfg e"; cases "get_channel_alerts e")
     (auto simp: and_then_eq_Some_Inr)



subsection \<open>Rate limiting\<close>

text \<open>
  What line 88-90 does with a 429 answer: the call continues as the call with the same
  endpoint, payload and method, the delay of the \<^verbatim>\<open>Retry-After\<close> header, and
  \<^verbatim>\<open>as_bot\<close> false, on the trace that holds the first request; an exception of that
  call is wrapped once more.
\<close>

lemma slack_api_http_rate_limited:
  assumes "w1 = (if 0 < d then w @ [Sleep d] else w) @
          [Http \<lparr>uri = ''https://slack.com/api/'' @ ep,
                 verb = (if m = ''POST'' then POST else GET), payload = pl,
                 headers = [(''Authorization'',
                     ''Bearer '' @ (if b then bot_slack_token cfg else slack_token cfg))]\<rparr>]"
    and "server e w1 = Answered resp"
    and "status_code resp = 429"
    and "header (resp_headers resp) ''Retry-After'' = Some h"
    and "float_of e h = Some t"
  shows "slack_api_http cfg e ep pl m d b w
         = map_option (\<lambda>rw. (reraise (fst rw), snd rw))
             (slack_api_http cfg e ep pl m t False w1)"
proof -
  have "Option.bind x (\<lambda>rw. Some (reraise (fst rw), snd rw))
        = map_option (\<lambda>rw. (reraise (fst rw), snd rw)) x"
    for x :: "((py_error + body option) \<times> trace) option"
    by (cases x) simp_all
  then show ?thesis
    apply (subst slack_api_http.simps)
    unfolding Let_def assms(1) [symmetric]
    apply (simp add: assms(2-5))
    done
qed

text \<open>
  C3: on a 429 answer the client should wait as the header says and issue the same request
  again, acting under the same identity. For a call with \<^verbatim>\<open>as_bot=True\<close> it does not: the
  first request carries the bot token, the request issued after the wait carries the user
  token, since the recursive call of line 90 leaves \<^verbatim>\<open>as_bot\<close> out.
\<close>

theorem retry_forgets_bot_identity:
  "slack_api_http example_settings (example_env\<lparr>server := limited_server\<rparr>)
     ''chat.postMessage'' [(''channel'', PStr ''C1''), (''text'', PStr ''bye'')] ''POST'' 0 True []
   = Some (Inr (Some [(''ok'', JBool True)]),
       [Http \<lparr>uri = ''https://slack.com/api/chat.postMessage'', verb = POST,
              payload = [(''channel'', PStr ''C1''), (''text'', PStr ''bye'')],
              headers = [(''Authorization'', ''Bearer xoxb-bot'')]\<rparr>,
        Sleep 2,
        Http \<lparr>uri = ''https://slack.com/api/chat.postMessage'', verb = POST,
              payload = [(''channel'', PStr ''C1''), (''text'', PStr ''bye'')],
              headers = [(''Authorization'', ''Bearer xoxp-user'')]\<rparr>])"
  by code_simp

subsection \<open>The clock\<close>

text \<open>
  The API client reads two fields of the environment, the platform and \<^verbatim>\<open>float\<close>; two
  environments that agree on them give the same call the same outcome.
\<close>

lemma slack_api_http_env_aux:
  "slack_api_http cfg e1 ep pl m d b w = Some y
   \<Longrightarrow> server e2 = server e1 \<Longrightarrow> float_of e2 = float_of e1
   \<Longrightarrow> slack_api_http cfg e2 ep pl m d b w = Some y"
proof (induction cfg e1 ep pl m d b w y rule: slack_api_http.raw_induct[rotated 1, consumes 1])
  case (1 f cfg e1 ep pl m d b w y)
  define w1 where "w1 = (if 0 < d then w @ [Sleep d] else w) @
      [Http \<lparr>uri = ''https://slack.com/api/'' @ ep,
             verb = (if m = ''POST'' then POST else GET), payload = pl,
             headers = [(''Authorization'',
                         ''Bearer '' @ (if b then bot_slack_token cfg else slack_token cfg))]\<rparr>]"
  have ih: "slack_api_http cfg e2 ep pl m t False w1 = Some y'"
    if "f cfg e1 ep pl m t False w1 = Some y'" for t y'
    using 1(1)[OF that] 1(3,4) by simp
  note hyp = 1(2) [unfolded Let_def, folded w1_def]
  note goal = slack_api_http.simps [of cfg e2 ep pl m d b w, unfolded Let_def 1(3) 1(4),
      folded w1_def]
  show ?case
    apply (subst goal)
    using hyp
    apply (cases "server e1 w1")
     apply (auto simp: bind_eq_Some_conv split: if_splits option.splits dest!: ih)
    done
qed

lemma slack_api_http_env:
  assumes "server e2 = server e1" "float_of e2 = float_of e1"
  shows "slack_api_http cfg e2 ep pl m d b w = slack_api_http cfg e1 ep pl m d b w"
proof (cases "slack_api_http cfg e1 ep pl m d b w")
  case (Some y)
  from slack_api_http_env_aux [OF Some assms] Some show ?thesis by simp
next
  case None
  show ?thesis
  proof (cases "slack_api_http cfg e2 ep pl m d b w")
    case (Some y)
    from slack_api_http_env_aux [OF Some assms(1) [symmetric] assms(2) [symmetric]] None
    show ?thesis by simp
  next
    case absent: None
    with None show ?thesis by simp
  qed
qed

text \<open>Nothing but \<^verbatim>\<open>generate_report\<close> reads the clock.\<close>

lemma slack_api_http_stamp:
  "slack_api_http cfg (e\<lparr>now_stamp := s\<rparr>) ep pl m d b w = slack_api_http cfg e ep pl m d b w"
  by (rule slack_api_http_env) simp_all

lemma first_kept_message_stamp:
  "first_kept_message cfg (e\<lparr>now_stamp := s\<rparr>) ms fb = first_kept_message cfg e ms fb"
  by (induction ms) (auto simp: fromtimestamp_def split: option.splits)

lemma get_last_message_timestamp_stamp:
  "get_last_message_timestamp cfg (e\<lparr>now_stamp := s\<rparr>) h fb
   = get_last_message_timestamp cfg e h fb"
  by (simp add: get_last_message_timestamp_def first_kept_message_stamp
      split: option.splits sum.splits)

lemma get_all_channels_stamp:
  "get_all_channels cfg (e\<lparr>now_stamp := s\<rparr>) w = get_all_channels cfg e w"
  by (simp add: get_all_channels_def slack_api_http_stamp Let_def)

lemma is_channel_disused_stamp:
  "is_channel_disused cfg (e\<lparr>now_stamp := s\<rparr>) ch too_old w
   = is_channel_disused cfg e ch too_old w"
  by (simp add: is_channel_disused_def slack_api_http_stamp get_last_message_timestamp_stamp
      fromtimestamp_def Let_def)

lemma send_channel_message_stamp:
  "send_channel_message cfg (e\<lparr>now_stamp := s\<rparr>) channel_id message w
   = send_channel_message cfg e channel_id message w"
  by (simp add: send_channel_message_def slack_api_http_stamp Let_def)

lemma archive_channel_stamp:
  "archive_channel cfg (e\<lparr>now_stamp := s\<rparr>) ch alert w = archive_channel cfg e ch alert w"
  by (simp add: archive_channel_def slack_api_http_stamp send_channel_message_stamp Let_def
      split: sum.splits)

lemma send_admin_report_stamp:
  "send_admin_report cfg (e\<lparr>now_stamp := s\<rparr>) channels w = send_admin_report cfg e channels w"
  by (simp add: send_admin_report_def send_channel_message_stamp Let_def
      split: option.splits)

lemma main_loop_stamp:
  "main_loop cfg (e\<lparr>now_stamp := s\<rparr>) whitelist tpl channels acc w
   = main_loop cfg e whitelist tpl channels acc w"
proof (induction channels arbitrary: acc w)
  case Nil
  show ?case by simp
next
  case (Cons ch rest)
  have ih: "main_loop cfg (e\<lparr>now_stamp := s\<rparr>) whitelist tpl rest acc'
            = main_loop cfg e whitelist tpl rest acc'" for acc'
    by (rule ext) (rule Cons.IH)
  show ?case
    by (simp add: is_channel_disused_stamp archive_channel_stamp ih Let_def
        cong: if_cong option.case_cong)
qed

lemma get_whitelist_keywords_stamp:
  "get_whitelist_keywords cfg (e\<lparr>now_stamp := s\<rparr>) = get_whitelist_keywords cfg e"
  by (simp add: get_whitelist_keywords_def Let_def split: option.splits)

lemma get_channel_alerts_stamp:
  "get_channel_alerts (e\<lparr>now_stamp := s\<rparr>) = get_channel_alerts e"
  by (simp add: get_channel_alerts_def)

lemma main_stamp_returns_iff:
  "main cfg (e\<lparr>now_stamp := s\<rparr>) w = Some (Inr (), w') \<longleftrightarrow>
     (\<exists>whitelist tpl channels w1 archived w2 w3.
        get_whitelist_keywords cfg e = Inr whitelist
      \<and> get_channel_alerts e = Inr tpl
      \<and> get_all_channels cfg e
           (if dry_run cfg
            then w @ [Log Info ''THIS IS A DRY RUN. NO CHANNELS ARE ACTUALLY ARCHIVED.'']
            else w) = Some (Inr channels, w1)
      \<and> main_loop cfg e whitelist tpl channels [] w1 = Some (Inr archived, w2)
      \<and> send_admin_report cfg e archived w2 = Some (Inr (), w3)
      \<and> w' = w3 @ [WriteFile (''report-'' @ s @ ''.txt'') (report_text archived)])"
  unfolding main_returns_iff
  by (simp add: get_whitelist_keywords_stamp get_channel_alerts_stamp get_all_channels_stamp
      main_loop_stamp send_admin_report_stamp)

text \<open>In a dry run the loop asks for histories and nothing else.\<close>

lemma main_loop_dry_run_extends:
  assumes "dry_run cfg"
  shows "main_loop cfg e whitelist tpl channels acc w = Some (r, w')
         \<Longrightarrow> extends_by w w' {''https://slack.com/api/conversations.history''}"
proof (induction channels arbitrary: acc w r w')
  case Nil
  then show ?case by (simp add: extends_by_refl)
next
  case (Cons ch rest)
  let ?uris = "{''https://slack.com/api/conversations.history''}"
  let ?w0 = "w @ [Stdout ''.'']"
  have start: "extends_by w ?w0 ?uris" by (rule extends_by_stdout)
  from Cons.prems have run:
    "and_then (is_channel_disused cfg e ch (too_old_datetime cfg) ?w0)
       (\<lambda>channel_disused w.
          if \<not> is_channel_whitelisted cfg ch whitelist \<and> channel_disused then
            (let archived_channels = acc @ [ch]
             in case map_of tpl ''channel_template'' of
                  None \<Rightarrow> Some (Inl (KeyError ''channel_template''), w)
                | Some alert \<Rightarrow>
                    and_then (archive_channel cfg e ch alert w)
                      (\<lambda>u w. main_loop cfg e whitelist tpl rest archived_channels w))
          else main_loop cfg e whitelist tpl rest acc w) = Some (r, w')"
    by (simp add: Let_def)
  have "extends_by ?w0 w' ?uris"
    using run
  proof (rule and_then_extends_by)
    fix r1 w1
    assume "is_channel_disused cfg e ch (too_old_datetime cfg) ?w0 = Some (r1, w1)"
    then show "extends_by ?w0 w1 ?uris" by (rule is_channel_disused_extends)
  next
    fix x :: bool and w1 w2 :: trace and r2 :: "py_error + channel list"
    assume step: "(if \<not> is_channel_whitelisted cfg ch whitelist \<and> x then
            (let archived_channels = acc @ [ch]
             in case map_of tpl ''channel_template'' of
                  None \<Rightarrow> Some (Inl (KeyError ''channel_template''), w1)
                | Some alert \<Rightarrow>
                    and_then (archive_channel cfg e ch alert w1)
                      (\<lambda>u w. main_loop cfg e whitelist tpl rest archived_channels w))
          else main_loop cfg e whitelist tpl rest acc w1) = Some (r2, w2)"
    show "extends_by w1 w2 ?uris"
    proof (cases "\<not> is_channel_whitelisted cfg ch whitelist \<and> x")
      case False
      with step have "main_loop cfg e whitelist tpl rest acc w1 = Some (r2, w2)" by simp
      then show ?thesis by (rule Cons.IH)
    next
      case True
      show ?thesis
      proof (cases "map_of tpl ''channel_template''")
        case None
        with True step have "w2 = w1" by (simp add: Let_def)
        then show ?thesis by (simp add: extends_by_refl)
      next
        case (Some alert)
        let ?w1 = "w1 @ [Log Info (''Archiving channel... '' @ name ch)]"
        from assms have "archive_channel cfg e ch alert w1 = Some (Inr (), ?w1)"
          by (simp add: archive_channel_def)
        with True Some step have
          "main_loop cfg e whitelist tpl rest (acc @ [ch]) ?w1 = Some (r2, w2)"
          by (simp add: Let_def)
        then have "extends_by ?w1 w2 ?uris" by (rule Cons.IH)
        with extends_by_log show ?thesis by (rule extends_by_trans)
      qed
    qed
  qed
  with start show ?case by (rule extends_by_trans)
qed

text \<open>
  C8: two dry runs on the same settings, files and platform, started at different times.
  When the first returns, so does the second; both did the same things up to the report;
  the two report files differ in their names only, and hold the same channel names. No
  request to archive a channel was issued on the way, so the first run left the platform's
  channels as they were.
\<close>

theorem dry_runs_write_the_same_report:
  assumes "dry_run cfg"
    and "main cfg (e\<lparr>now_stamp := stamp1\<rparr>) w = Some (Inr (), w1)"
  shows "\<exists>evs archived.
           w1 = w @ evs @ [WriteFile (''report-'' @ stamp1 @ ''.txt'') (report_text archived)]
         \<and> main cfg (e\<lparr>now_stamp := stamp2\<rparr>) w
             = Some (Inr (), w @ evs @ [WriteFile (''report-'' @ stamp2 @ ''.txt'')
                                          (report_text archived)])
         \<and> ''https://slack.com/api/conversations.archive'' \<notin> set (request_uris evs)"
proof -
  let ?uris = "{''https://slack.com/api/conversations.list'',
                ''https://slack.com/api/conversations.history'',
                ''https://slack.com/api/chat.postMessage''}"
  let ?w0 = "w @ [Log Info ''THIS IS A DRY RUN. NO CHANNELS ARE ACTUALLY ARCHIVED.'']"
  from assms obtain whitelist tpl channels wa archived wb wc where
    kw: "get_whitelist_keywords cfg e = Inr whitelist"
    and al: "get_channel_alerts e = Inr tpl"
    and ls: "get_all_channels cfg e ?w0 = Some (Inr channels, wa)"
    and lp: "main_loop cfg e whitelist tpl channels [] wa = Some (Inr archived, wb)"
    and rp: "send_admin_report cfg e archived wb = Some (Inr (), wc)"
    and fin: "w1 = wc @ [WriteFile (''report-'' @ stamp1 @ ''.txt'') (report_text archived)]"
    unfolding main_stamp_returns_iff by auto
  have "extends_by w ?w0 ?uris" by (rule extends_by_log)
  moreover have "extends_by ?w0 wa ?uris"
    by (rule extends_by_mono [OF get_all_channels_extends [OF ls]]) simp
  moreover have "extends_by wa wb ?uris"
    by (rule extends_by_mono [OF main_loop_dry_run_extends [OF assms(1) lp]]) simp
  moreover have "extends_by wb wc ?uris"
    by (rule extends_by_mono [OF send_admin_report_extends [OF rp]]) simp
  ultimately have "extends_by w wc ?uris"
    by (blast intro: extends_by_trans)
  then obtain evs where wc: "wc = w @ evs" and uris: "set (request_uris evs) \<subseteq> ?uris"
    by (auto simp: extends_by_def)
  from uris have "''https://slack.com/api/conversations.archive'' \<notin> set (request_uris evs)"
    by auto
  moreover from assms(1) kw al ls lp rp have
    "main cfg (e\<lparr>now_stamp := stamp2\<rparr>) w
       = Some (Inr (), wc @ [WriteFile (''report-'' @ stamp2 @ ''.txt'') (report_text archived)])"
    unfolding main_stamp_returns_iff by auto
  ultimately show ?thesis using fin wc by auto
qed

theorem dry_runs_write_the_same_report_witness:
  "\<exists>evs archived.
     [Log Info ''THIS IS A DRY RUN. NO CHANNELS ARE ACTUALLY ARCHIVED.'',
      Http \<lparr>uri = ''https://slack.com/api/conversations.list'', verb = GET,
            payload = [(''exclude_archived'', PInt 1), (''limit'', PInt 1000)],
            headers = [(''Authorization'', ''Bearer xoxp-user'')]\<rparr>,
      Stdout ''.'',
      Http (history_request example_settings old_proj),
      Log Info ''Archiving channel... old-proj'',
      Stdout ''.'',
      Http (history_request example_settings lobby),
      Http \<lparr>uri = ''https://slack.com/api/chat.postMessage'', verb = POST,
            payload = [(''channel'', PStr ''C0ADMIN''), (''username'', PStr ''Auto Archiver''),
                       (''icon_emoji'', PStr '':wave:''),
                       (''text'', PStr ''[DRY RUN] Archiving 1 channels: #old-proj'')],
            headers = [(''Authorization'', ''Bearer xoxb-bot'')]\<rparr>,
      WriteFile ''report-11042026120000.txt'' ''old-proj'']
     = [] @ evs @ [WriteFile (''report-'' @ ''11042026120000'' @ ''.txt'') (report_text archived)]
   \<and> main example_settings (example_env\<lparr>now_stamp := ''11052026093000''\<rparr>) []
       = Some (Inr (), [] @ evs @ [WriteFile (''report-'' @ ''11052026093000'' @ ''.txt'')
                                     (report_text archived)])
   \<and> ''https://slack.com/api/conversations.archive'' \<notin> set (request_uris evs)"
proof -
  have dry: "dry_run example_settings" by (simp add: example_settings_def)
  have run: "main example_settings (example_env\<lparr>now_stamp := ''11042026120000''\<rparr>) []
     = Some (Inr (),
     [Log Info ''THIS IS A DRY RUN. NO CHANNELS ARE ACTUALLY ARCHIVED.'',
      Http \<lparr>uri = ''https://slack.com/api/conversations.list'', verb = GET,
            payload = [(''exclude_archived'', PInt 1), (''limit'', PInt 1000)],
            headers = [(''Authorization'', ''Bearer xoxp-user'')]\<rparr>,
      Stdout ''.'',
      Http (history_request example_settings old_proj),
      Log Info ''Archiving channel... old-proj'',
      Stdout ''.'',
      Http (history_request example_settings lobby),
      Http \<lparr>uri = ''https://slack.com/api/chat.postMessage'', verb = POST,
            payload = [(''channel'', PStr ''C0ADMIN''), (''username'', PStr ''Auto Archiver''),
                       (''icon_emoji'', PStr '':wave:''),
                       (''text'', PStr ''[DRY RUN] Archiving 1 channels: #old-proj'')],
            headers = [(''Authorization'', ''Bearer xoxb-bot'')]\<rparr>,
      WriteFile ''report-11042026120000.txt'' ''old-proj''])"
    by code_simp
  from dry_runs_write_the_same_report [OF dry run, of "''11052026093000''"]
  show ?thesis .
qed

end
